theory Spec2Isabelle
  imports Main
begin

section \<open>JavaScript values\<close>

text \<open>
  The wizard keeps plain JavaScript objects in its state and reads Immutable maps from its
  props. Both are modelled as ordered key/value lists: a property that is missing reads as
  \<open>undefined\<close>, an assignment to an existing key keeps the key's place and an assignment to a
  new key appends it; an object holds each key once. Numbers are integers (memory, cpu counts, sizes), so \<open>NaN\<close> does not
  occur; \<open>===\<close> is HOL equality, which is exact on the primitives the code compares
  (ids, tokens, the provision source, the template class).
\<close>

datatype jsval =
  JUndefined
  | JNull
  | JBool bool
  | JNum int
  | JStr string
  | JObj "(string \<times> jsval) list"

type_synonym jsobj = "(string \<times> jsval) list"

text \<open>\<open>obj.k\<close>, and \<open>map.get(k)\<close> of an Immutable map.\<close>

definition js_get :: "jsobj \<Rightarrow> string \<Rightarrow> jsval" where
  "js_get obj k = (case map_of obj k of None \<Rightarrow> JUndefined | Some v \<Rightarrow> v)"

text \<open>\<open>map.getIn(path)\<close>: \<open>undefined\<close> as soon as a step of the path is missing.\<close>

fun getIn :: "jsval \<Rightarrow> string list \<Rightarrow> jsval" where
  "getIn v [] = v"
| "getIn (JObj obj) (k # ks) = getIn (js_get obj k) ks"
| "getIn v (k # ks) = JUndefined"

text \<open>\<open>obj[k] = v\<close>.\<close>

fun set_prop :: "string \<Rightarrow> jsval \<Rightarrow> jsobj \<Rightarrow> jsobj" where
  "set_prop k v [] = [(k, v)]"
| "set_prop k v (p # ps) = (if fst p = k then (k, v) # ps else p # set_prop k v ps)"

text \<open>
  \<open>for (const [key, val] of Object.entries(src)) { target[key] = val }\<close>; the object
  spread \<open>{ ...target, ...src }\<close> computes the same object.
\<close>

fun assign_entries :: "jsobj \<Rightarrow> jsobj \<Rightarrow> jsobj" where
  "assign_entries target [] = target"
| "assign_entries target ((key, val) # rest) = assign_entries (set_prop key val target) rest"

text \<open>The conversion to boolean of \<open>if (v)\<close>, \<open>!v\<close>, \<open>v ? a : b\<close> and \<open>v || w\<close>.\<close>

fun truthy :: "jsval \<Rightarrow> bool" where
  "truthy JUndefined = False"
| "truthy JNull = False"
| "truthy (JBool b) = b"
| "truthy (JNum n) = (n \<noteq> 0)"
| "truthy (JStr s) = (s \<noteq> [])"
| "truthy (JObj obj) = True"

definition js_or :: "jsval \<Rightarrow> jsval \<Rightarrow> jsval" where
  "js_or a b = (if truthy a then a else b)"

datatype js_error = TypeError

section \<open>The wizard's state and props\<close>

text \<open>
  \<open>steps.network\<close> is \<open>{ nics, updated }\<close> and \<open>steps.storage\<close> is \<open>{ disks, updated }\<close>:
  one record for both, \<open>items\<close> being the step's own list. The counter starts at 0 and
  is only ever reset to 0 or increased by 1: a natural number.
\<close>

record list_step =
  items :: "jsobj list"
  updated :: nat

record wizard_steps =
  basic :: jsobj
  network :: list_step
  storage :: list_step

record step_nav =
  valid :: bool
  preventEnter :: bool

record step_navigation =
  nav_basic :: step_nav
  nav_network :: step_nav
  nav_storage :: step_nav
  nav_review :: step_nav

record wizard_state =
  activeStepIndex :: nat
  wizardKey :: nat
  steps :: wizard_steps
  wizardUpdated :: bool
  showCloseWizardDialog :: bool
  stepNavigation :: step_navigation
  correlationId :: jsval
  basicDefaultValues :: jsval

text \<open>A template of the catalog: its class and its NICs and disks (Immutable maps).\<close>

record template =
  type :: jsval
  nics :: "jsobj list"
  disks :: "jsobj list"

text \<open>
  The props of the component. \<open>templates\<close> and \<open>actionResults\<close> are Immutable maps,
  \<open>userMessages\<close> is the list under \<open>records\<close>. The helpers the wizard imports from other
  modules are parameters: \<open>clustersList\<close> is what \<open>createClusterList\<close> returns,
  \<open>handleClusterIdChange\<close> and \<open>createStorageDomainList\<close> are the helpers applied to the
  cluster id and to the data center id (their other arguments are props),
  \<open>blankTemplateValues\<close> are the values \<open>getInitialState\<close> reads from the blank template
  (empty when there is none), \<open>buildMessageFromRecord\<close> renders a record, and
  \<open>EMPTY_VNIC_PROFILE_ID\<close> is the imported constant.
\<close>

record props =
  templates :: "(jsval \<times> template) list"
  actionResults :: "(jsval \<times> jsval) list"
  userMessages :: "jsval list"
  clustersList :: "jsobj list"
  handleClusterIdChange :: "jsval \<Rightarrow> jsobj"
  blankTemplateValues :: jsobj
  createStorageDomainList :: "jsval \<Rightarrow> jsobj list"
  buildMessageFromRecord :: "jsval \<Rightarrow> jsval"
  EMPTY_VNIC_PROFILE_ID :: jsval

definition DEFAULT_STATE :: wizard_state where
  "DEFAULT_STATE =
    \<lparr> activeStepIndex = 0,
      wizardKey = 1,
      steps =
        \<lparr> basic =
            [ (''name'', JStr ''''),
              (''operatingSystemId'', JStr ''0''),
              (''memory'', JNum 1024),
              (''cpus'', JNum 1),
              (''startOnCreation'', JBool False),
              (''initEnabled'', JBool False),
              (''optimizedFor'', JStr ''desktop''),
              (''topology'',
                JObj [(''sockets'', JNum 1), (''cores'', JNum 1), (''threads'', JNum 1)]),
              (''tpmEnabled'', JUndefined) ],
          network = \<lparr> items = [], updated = 0 \<rparr>,
          storage = \<lparr> items = [], updated = 0 \<rparr> \<rparr>,
      wizardUpdated = False,
      showCloseWizardDialog = False,
      stepNavigation =
        \<lparr> nav_basic = \<lparr> valid = False, preventEnter = False \<rparr>,
          nav_network = \<lparr> valid = True, preventEnter = False \<rparr>,
          nav_storage = \<lparr> valid = False, preventEnter = False \<rparr>,
          nav_review = \<lparr> valid = True, preventEnter = False \<rparr> \<rparr>,
      correlationId = JNull,
      basicDefaultValues = JUndefined \<rparr>"

section \<open>getInitialState\<close>

definition getInitialState :: "props \<Rightarrow> wizard_state" where
  "getInitialState p =
    (let changes0 =
           (case clustersList p of
              [c] \<Rightarrow> [(''clusterId'', js_get c ''id'')]
            | _ \<Rightarrow> []);
         changes1 = set_prop ''provisionSource'' (JStr ''template'') changes0;
         changes =
           (if truthy (js_get changes1 ''clusterId'')
            then assign_entries changes1 (handleClusterIdChange p (js_get changes1 ''clusterId''))
            else changes1);
         defaults = basic (steps DEFAULT_STATE)
     in DEFAULT_STATE
          \<lparr> basicDefaultValues := JObj (assign_entries defaults (blankTemplateValues p)),
            steps := (steps DEFAULT_STATE)
              \<lparr> basic := assign_entries (assign_entries defaults (blankTemplateValues p)) changes \<rparr> \<rparr>)"

section \<open>The finished step's progress view\<close>

text \<open>
  \<open>result\<close> is \<open>undefined\<close>, \<open>'success'\<close> or \<open>'error'\<close>; \<open>messages\<close> is \<open>null\<close> (here
  \<open>None\<close>) when there is no token.
\<close>

record progress =
  inProgress :: bool
  result :: jsval
  messages :: "jsval list option"

text \<open>\<open>map.get(k)\<close> and \<open>map.has(k)\<close> of an Immutable map keyed by values; \<open>None\<close> is \<open>undefined\<close>.\<close>

definition get :: "(jsval \<times> 'a) list \<Rightarrow> jsval \<Rightarrow> 'a option" where
  "get m k = map_of m k"

definition has :: "(jsval \<times> 'a) list \<Rightarrow> jsval \<Rightarrow> bool" where
  "has m k = (map_of m k \<noteq> None)"

definition finishedStepProgress :: "props \<Rightarrow> jsval \<Rightarrow> progress" where
  "finishedStepProgress p cid =
    (let inProgress' = (cid \<noteq> JNull \<and> \<not> has (actionResults p) cid);
         correlatedResult =
           (if cid = JNull \<or> inProgress' then JUndefined
            else (case get (actionResults p) cid of
                    Some r \<Rightarrow> if truthy r then JStr ''success'' else JStr ''error''
                  | None \<Rightarrow> JStr ''error''));
         correlatedMessages =
           (if cid = JNull then None
            else Some (map (buildMessageFromRecord p)
                   (filter (\<lambda>record. getIn record [''failedAction'', ''meta'', ''correlationId''] = cid)
                      (userMessages p))))
     in \<lparr> inProgress = inProgress', result = correlatedResult, messages = correlatedMessages \<rparr>)"

section \<open>handleBasicOnUpdate\<close>

text \<open>
  The state the producer receives is the state the handler was called on: handlers run one
  after the other, each on the state the previous one left.
\<close>

definition handleBasicOnUpdate :: "jsobj \<Rightarrow> wizard_state \<Rightarrow> wizard_state" where
  "handleBasicOnUpdate partialUpdate s =
    (let basic' = assign_entries (basic (steps s)) partialUpdate;
         provisionSource = js_get basic' ''provisionSource'';
         templateId = js_get basic' ''templateId'';
         provisionSource' = js_get partialUpdate ''provisionSource'';
         templateId' = js_get partialUpdate ''templateId'';
         reset = (provisionSource \<noteq> provisionSource' \<or> templateId \<noteq> templateId')
     in s \<lparr> steps := (steps s)
              \<lparr> basic := basic',
                network := (if reset then (network (steps s)) \<lparr> updated := 0 \<rparr>
                            else network (steps s)),
                storage := (if reset then (storage (steps s)) \<lparr> updated := 0 \<rparr>
                            else storage (steps s)) \<rparr>,
            wizardUpdated := True \<rparr>)"

section \<open>handleBasicOnExit\<close>

text \<open>The NIC draft built from a template NIC.\<close>

definition nic_draft :: "props \<Rightarrow> jsobj \<Rightarrow> jsobj" where
  "nic_draft p nic =
    [ (''id'', js_get nic ''id''),
      (''name'', js_get nic ''name''),
      (''vnicProfileId'',
        js_or (getIn (JObj nic) [''vnicProfile'', ''id'']) (EMPTY_VNIC_PROFILE_ID p)),
      (''deviceType'', js_get nic ''interface''),
      (''isFromTemplate'', JBool True) ]"

text \<open>
  The disk draft built from a template disk, given the storage domains of the data center,
  the template and the state the handler was called on.
\<close>

definition disk_draft :: "jsobj list \<Rightarrow> template \<Rightarrow> wizard_state \<Rightarrow> jsobj \<Rightarrow> jsobj" where
  "disk_draft dataCenterStorageDomainsList tpl s disk =
    (let canUserUseStorageDomain =
           (find (\<lambda>sd. js_get sd ''id'' = js_get disk ''storageDomainId'')
              dataCenterStorageDomainsList \<noteq> None);
         diskType =
           (if type tpl = JStr ''desktop'' \<or>
               js_get (basic (steps s)) ''optimizedFor'' = JStr ''desktop''
            then JStr ''thin''
            else if truthy (js_get disk ''sparse'') then JStr ''thin'' else JStr ''pre'')
     in [ (''id'', js_get disk ''attachmentId''),
          (''name'', js_get disk ''name''),
          (''diskId'', js_get disk ''id''),
          (''storageDomainId'', js_get disk ''storageDomainId''),
          (''canUserUseStorageDomain'', JBool canUserUseStorageDomain),
          (''bootable'', js_get disk ''bootable''),
          (''diskType'', diskType),
          (''size'', js_get disk ''provisionedSize''),
          (''isFromTemplate'', JBool True) ])"

text \<open>The second pass: a disk whose storage domain the user cannot use goes to edit mode.\<close>

definition edit_mode :: "jsobj \<Rightarrow> jsobj" where
  "edit_mode disk =
    (if truthy (js_get disk ''canUserUseStorageDomain'') then disk
     else set_prop ''underConstruction''
            (JObj (set_prop ''storageDomainId'' (JStr ''_'') disk)) disk)"

definition handleBasicOnExit :: "props \<Rightarrow> wizard_state \<Rightarrow> wizard_state" where
  "handleBasicOnExit p s =
    (let resetNics = (updated (network (steps s)) = 0);
         resetDisks = (updated (storage (steps s)) = 0)
     in if resetNics \<or> resetDisks then
          (let tpl = get (templates p) (js_get (basic (steps s)) ''templateId'');
               s1 =
                 (if resetNics then
                    s \<lparr> steps := (steps s)
                      \<lparr> network :=
                          \<lparr> items = (case tpl of None \<Rightarrow> []
                                      | Some t \<Rightarrow> map (nic_draft p) (nics t)),
                            updated = updated (network (steps s)) + 1 \<rparr> \<rparr> \<rparr>
                  else s)
           in if resetDisks then
                (let dataCenterStorageDomainsList =
                       createStorageDomainList p (js_get (basic (steps s)) ''dataCenterId'');
                     disks' =
                       (case tpl of None \<Rightarrow> []
                        | Some t \<Rightarrow>
                            map edit_mode
                              (map (disk_draft dataCenterStorageDomainsList t s) (disks t)))
                 in s1 \<lparr> steps := (steps s1)
                          \<lparr> storage :=
                              \<lparr> items = disks',
                                updated = updated (storage (steps s1)) + 1 \<rparr> \<rparr>,
                        stepNavigation := (stepNavigation s1)
                          \<lparr> nav_storage := (nav_storage (stepNavigation s1))
                              \<lparr> valid :=
                                  (find (\<lambda>d. truthy (js_get d ''underConstruction'')) disks'
                                     = None) \<rparr> \<rparr> \<rparr>)
              else s1)
        else s)"

section \<open>handleListOnUpdate\<close>

datatype step_name = Basic | Network | Storage

datatype list_name = Nics | Disks

text \<open>
  \<open>draft.steps[stepName][listName]\<close>: the list, or \<open>None\<close> where the step has no array
  under that name (no property of \<open>steps.basic\<close> is an array).
\<close>

fun step_list :: "step_name \<Rightarrow> list_name \<Rightarrow> wizard_steps \<Rightarrow> jsobj list option" where
  "step_list Network Nics st = Some (items (network st))"
| "step_list Storage Disks st = Some (items (storage st))"
| "step_list stepName listName st = None"

fun step_updated :: "step_name \<Rightarrow> wizard_steps \<Rightarrow> nat option" where
  "step_updated Network st = Some (updated (network st))"
| "step_updated Storage st = Some (updated (storage st))"
| "step_updated Basic st = None"

text \<open>Storing the list back and \<open>step.updated = step.updated + 1\<close>.\<close>

fun store_list :: "step_name \<Rightarrow> jsobj list \<Rightarrow> wizard_steps \<Rightarrow> wizard_steps" where
  "store_list Network xs st =
     st \<lparr> network := \<lparr> items = xs, updated = updated (network st) + 1 \<rparr> \<rparr>"
| "store_list Storage xs st =
     st \<lparr> storage := \<lparr> items = xs, updated = updated (storage st) + 1 \<rparr> \<rparr>"
| "store_list Basic xs st = st"

text \<open>The payload: \<open>remove\<close> is an id, \<open>update\<close> and \<open>create\<close> are objects or absent.\<close>

record payload =
  remove :: jsval
  update :: "jsobj option"
  create :: "jsobj option"

text \<open>\<open>find\<close> the first item with the id of the update and assign the update's entries to it.\<close>

fun update_found :: "jsobj \<Rightarrow> jsobj list \<Rightarrow> jsobj list" where
  "update_found u [] = []"
| "update_found u (item # rest) =
     (if js_get item ''id'' = js_get u ''id'' then assign_entries item u # rest
      else item # update_found u rest)"

definition handleListOnUpdate ::
  "step_name \<Rightarrow> list_name \<Rightarrow> payload \<Rightarrow> wizard_state \<Rightarrow> js_error + wizard_state" where
  "handleListOnUpdate stepName listName pl s =
    (if \<not> truthy (remove pl) \<and> update pl = None \<and> create pl = None then Inr s
     else
       (case step_list stepName listName (steps s) of
          None \<Rightarrow> Inl TypeError
        | Some xs \<Rightarrow>
            (let xs1 =
                   (if truthy (remove pl)
                    then filter (\<lambda>item. js_get item ''id'' \<noteq> remove pl) xs else xs);
                 xs2 = (case update pl of None \<Rightarrow> xs1 | Some u \<Rightarrow> update_found u xs1);
                 xs3 = (case create pl of None \<Rightarrow> xs2 | Some c \<Rightarrow> xs2 @ [c])
             in Inr (s \<lparr> wizardUpdated := True,
                         steps := store_list stepName xs3 (steps s) \<rparr>))))"

section \<open>Submission, closing and reset\<close>

text \<open>\<open>handleCreateVm\<close> with the token \<open>generateUnique\<close> returned.\<close>

definition handleCreateVm :: "jsval \<Rightarrow> wizard_state \<Rightarrow> wizard_state" where
  "handleCreateVm token s = s \<lparr> correlationId := token \<rparr>"

definition hideAndResetState :: "props \<Rightarrow> wizard_state \<Rightarrow> wizard_state" where
  "hideAndResetState p s = (getInitialState p) \<lparr> wizardKey := wizardKey s + 1 \<rparr>"

definition hideAndNavigate :: "props \<Rightarrow> wizard_state \<Rightarrow> wizard_state" where
  "hideAndNavigate p s = hideAndResetState p s"

definition hideCloseWizardDialog :: "wizard_state \<Rightarrow> wizard_state" where
  "hideCloseWizardDialog s = s \<lparr> showCloseWizardDialog := False \<rparr>"

text \<open>The method \<open>showCloseWizardDialog\<close> (the state has a field of the same name).\<close>

definition showCloseWizardDialog_handler :: "props \<Rightarrow> wizard_state \<Rightarrow> wizard_state" where
  "showCloseWizardDialog_handler p s =
    (if wizardUpdated s \<and> \<not> truthy (correlationId s)
     then s \<lparr> showCloseWizardDialog := True \<rparr>
     else hideAndResetState p s)"

text \<open>\<open>draft.stepNavigation[step].valid = valid\<close> of the steps' \<open>onUpdate\<close> callbacks.\<close>

fun set_valid :: "step_name \<Rightarrow> bool \<Rightarrow> wizard_state \<Rightarrow> wizard_state" where
  "set_valid Basic v s =
     s \<lparr> stepNavigation := (stepNavigation s)
           \<lparr> nav_basic := (nav_basic (stepNavigation s)) \<lparr> valid := v \<rparr> \<rparr> \<rparr>"
| "set_valid Network v s =
     s \<lparr> stepNavigation := (stepNavigation s)
           \<lparr> nav_network := (nav_network (stepNavigation s)) \<lparr> valid := v \<rparr> \<rparr> \<rparr>"
| "set_valid Storage v s =
     s \<lparr> stepNavigation := (stepNavigation s)
           \<lparr> nav_storage := (nav_storage (stepNavigation s)) \<lparr> valid := v \<rparr> \<rparr> \<rparr>"

text \<open>
  The operations of a wizard session: every handler that sets the state. A handler that
  throws leaves the state as it was.
\<close>

datatype wizard_op =
  HandleBasicOnUpdate jsobj
  | SetValid step_name bool
  | HandleBasicOnExit
  | HandleListOnUpdate step_name list_name payload
  | HandleCreateVm jsval
  | HideCloseWizardDialog
  | ShowCloseWizardDialog
  | HideAndResetState
  | HideAndNavigate

fun run_op :: "props \<Rightarrow> wizard_op \<Rightarrow> wizard_state \<Rightarrow> wizard_state" where
  "run_op p (HandleBasicOnUpdate partialUpdate) s = handleBasicOnUpdate partialUpdate s"
| "run_op p (SetValid stepName v) s = set_valid stepName v s"
| "run_op p HandleBasicOnExit s = handleBasicOnExit p s"
| "run_op p (HandleListOnUpdate stepName listName pl) s =
     (case handleListOnUpdate stepName listName pl s of Inl e \<Rightarrow> s | Inr s' \<Rightarrow> s')"
| "run_op p (HandleCreateVm token) s = handleCreateVm token s"
| "run_op p HideCloseWizardDialog s = hideCloseWizardDialog s"
| "run_op p ShowCloseWizardDialog s = showCloseWizardDialog_handler p s"
| "run_op p HideAndResetState s = hideAndResetState p s"
| "run_op p HideAndNavigate s = hideAndNavigate p s"

text \<open>The states a session reaches from the state the constructor builds.\<close>

inductive reachable :: "props \<Rightarrow> wizard_state \<Rightarrow> bool" for p :: props where
  reachable_init: "reachable p (getInitialState p)"
| reachable_step: "reachable p s \<Longrightarrow> reachable p (run_op p ops s)"

section \<open>A concrete session\<close>

text \<open>
  A catalog with one template of class \<open>server\<close>: two NICs, the second without a vNIC
  profile, and two disks, the first sparse on a storage domain the user cannot use, the
  second not sparse on a storage domain of the data center. One creation has succeeded
  under the token \<open>CreateVmWizard_1\<close>; one failure record carries the token
  \<open>CreateVmWizard_2\<close>.
\<close>

definition example_template :: template where
  "example_template =
    \<lparr> type = JStr ''server'',
      nics =
        [ [ (''id'', JStr ''nic1''), (''name'', JStr ''eth0''),
            (''vnicProfile'', JObj [(''id'', JStr ''P1'')]), (''interface'', JStr ''virtio'') ],
          [ (''id'', JStr ''nic2''), (''name'', JStr ''eth1''),
            (''interface'', JStr ''e1000'') ] ],
      disks =
        [ [ (''attachmentId'', JStr ''a1''), (''name'', JStr ''disk1''), (''id'', JStr ''d1''),
            (''storageDomainId'', JStr ''SD1''), (''bootable'', JBool True),
            (''sparse'', JBool True), (''provisionedSize'', JNum 1024) ],
          [ (''attachmentId'', JStr ''a2''), (''name'', JStr ''disk2''), (''id'', JStr ''d2''),
            (''storageDomainId'', JStr ''SD2''), (''bootable'', JBool False),
            (''sparse'', JBool False), (''provisionedSize'', JNum 2048) ] ] \<rparr>"

definition example_props :: props where
  "example_props =
    \<lparr> templates = [(JStr ''t1'', example_template)],
      actionResults = [(JStr ''CreateVmWizard_1'', JBool True)],
      userMessages =
        [ JObj [ (''message'', JStr ''failed''),
                 (''failedAction'',
                   JObj [(''meta'', JObj [(''correlationId'', JStr ''CreateVmWizard_2'')])]) ] ],
      clustersList = [],
      handleClusterIdChange = (\<lambda>clusterId. []),
      blankTemplateValues = [],
      createStorageDomainList = (\<lambda>dataCenterId. [[(''id'', JStr ''SD2'')]]),
      buildMessageFromRecord = (\<lambda>record. getIn record [''message'']),
      EMPTY_VNIC_PROFILE_ID = JStr ''<no-profile>'' \<rparr>"

text \<open>The user has picked the template and optimises for a server.\<close>

definition template_selected :: wizard_state where
  "template_selected =
    handleBasicOnUpdate
      [ (''provisionSource'', JStr ''template''), (''templateId'', JStr ''t1''),
        (''optimizedFor'', JStr ''server'') ]
      (getInitialState example_props)"

text \<open>The user has left the basic step: NICs and disks are derived, both counters are 1.\<close>

definition derived :: wizard_state where
  "derived = handleBasicOnExit example_props template_selected"

text \<open>Before leaving the basic step the user has added a NIC, or a disk.\<close>

definition nic_added :: wizard_state where
  "nic_added =
    run_op example_props
      (HandleListOnUpdate Network Nics
        \<lparr> remove = JUndefined, update = None,
          create = Some [(''id'', JStr ''NEW_1''), (''name'', JStr ''nic9'')] \<rparr>)
      template_selected"

definition disk_added :: wizard_state where
  "disk_added =
    run_op example_props
      (HandleListOnUpdate Storage Disks
        \<lparr> remove = JUndefined, update = None,
          create = Some [(''id'', JStr ''NEW_2''), (''name'', JStr ''disk9'')] \<rparr>)
      template_selected"

text \<open>An item whose id is the empty string, and the state after creating it as a NIC.\<close>

definition item_with_empty_id :: jsobj where
  "item_with_empty_id = [(''id'', JStr []), (''name'', JStr ''nic0'')]"

definition empty_id_created :: wizard_state where
  "empty_id_created =
    DEFAULT_STATE
      \<lparr> wizardUpdated := True,
        steps := (steps DEFAULT_STATE)
          \<lparr> network := \<lparr> items = [item_with_empty_id], updated = 1 \<rparr> \<rparr> \<rparr>"

text \<open>The creation has been submitted once.\<close>

definition submitted :: wizard_state where
  "submitted = run_op example_props (HandleCreateVm (JStr ''CreateVmWizard_1'')) derived"

section \<open>Facts about objects and lists\<close>

lemma map_of_set_prop:
  "map_of (set_prop k v obj) k' = (if k' = k then Some v else map_of obj k')"
  by (induction obj) auto

lemma js_get_set_prop: "js_get (set_prop k v obj) k' = (if k' = k then v else js_get obj k')"
  by (simp add: js_get_def map_of_set_prop)

lemma js_get_assign_entries:
  "distinct (map fst src) \<Longrightarrow>
   js_get (assign_entries target src) k
     = (if k \<in> fst ` set src then js_get src k else js_get target k)"
proof (induction src arbitrary: target)
  case Nil
  show ?case by simp
next
  case (Cons entry rest)
  obtain key val where entry: "entry = (key, val)" by (cases entry)
  from Cons.prems have fresh: "key \<notin> fst ` set rest" and rest: "distinct (map fst rest)"
    by (auto simp add: entry)
  show ?case
  proof (cases "k = key")
    case True
    with fresh Cons.IH [OF rest, of "set_prop key val target"] show ?thesis
      by (simp add: entry js_get_set_prop) (simp add: js_get_def)
  next
    case False
    with Cons.IH [OF rest, of "set_prop key val target"] show ?thesis
      by (simp add: entry js_get_set_prop) (simp add: js_get_def)
  qed
qed

lemma filter_no_match:
  "r \<notin> (\<lambda>item. js_get item ''id'') ` set xs \<Longrightarrow>
   filter (\<lambda>item. js_get item ''id'' \<noteq> r) xs = xs"
  by (induction xs) auto

lemma update_found_no_match:
  "js_get u ''id'' \<notin> (\<lambda>item. js_get item ''id'') ` set xs \<Longrightarrow> update_found u xs = xs"
  by (induction xs) auto

section \<open>Facts about the concrete session\<close>

lemma template_selected_fresh:
  "updated (network (steps template_selected)) = 0"
  "updated (storage (steps template_selected)) = 0"
  by code_simp+

lemma template_selected_template:
  "get (templates example_props) (js_get (basic (steps template_selected)) ''templateId'')
     = Some example_template"
  by code_simp

lemma derived_counters:
  "updated (network (steps derived)) = 1"
  "updated (storage (steps derived)) = 1"
  by code_simp+

section \<open>The disk type of a derived disk\<close>

lemma storage_items:
  "updated (storage (steps s)) = 0 \<Longrightarrow>
   items (storage (steps (handleBasicOnExit p s))) =
     (case get (templates p) (js_get (basic (steps s)) ''templateId'') of
        None \<Rightarrow> []
      | Some t \<Rightarrow>
          map edit_mode
            (map (disk_draft
                    (createStorageDomainList p (js_get (basic (steps s)) ''dataCenterId'')) t s)
               (disks t)))"
  by (simp add: handleBasicOnExit_def Let_def)

lemma storage_valid:
  "updated (storage (steps s)) = 0 \<Longrightarrow>
   valid (nav_storage (stepNavigation (handleBasicOnExit p s))) =
     (find (\<lambda>d. truthy (js_get d ''underConstruction''))
        (items (storage (steps (handleBasicOnExit p s)))) = None)"
  by (simp add: handleBasicOnExit_def Let_def)

lemma draft_diskType:
  "js_get (disk_draft sds t s disk) ''diskType'' =
     (if type t = JStr ''desktop'' \<or> js_get (basic (steps s)) ''optimizedFor'' = JStr ''desktop''
      then JStr ''thin''
      else if truthy (js_get disk ''sparse'') then JStr ''thin'' else JStr ''pre'')"
  by (simp add: disk_draft_def js_get_def Let_def)

lemma draft_canUse:
  "js_get (disk_draft sds t s disk) ''canUserUseStorageDomain'' =
     JBool (find (\<lambda>sd. js_get sd ''id'' = js_get disk ''storageDomainId'') sds \<noteq> None)"
  by (simp add: disk_draft_def js_get_def Let_def)

lemma draft_no_shadow: "map_of (disk_draft sds t s disk) ''underConstruction'' = None"
  by (simp add: disk_draft_def Let_def)

lemma edit_mode_other:
  "k \<noteq> ''underConstruction'' \<Longrightarrow> js_get (edit_mode d) k = js_get d k"
  by (simp add: edit_mode_def js_get_set_prop)

text \<open>
  Claim C1. When the disks are derived on leaving the basic step (the storage counter is 0
  and the selected template exists), the list has one disk per template disk, in order,
  and the \<open>diskType\<close> of each is \<open>thin\<close> if the template's class is \<open>desktop\<close> or the
  wizard's \<open>optimizedFor\<close> is \<open>desktop\<close>; otherwise it is \<open>thin\<close> if the template disk is
  sparse and \<open>pre\<close> if it is not.
\<close>

theorem disk_type_rule:
  assumes "updated (storage (steps s)) = 0"
    and "get (templates p) (js_get (basic (steps s)) ''templateId'') = Some t"
    and "i < length (disks t)"
  shows "length (items (storage (steps (handleBasicOnExit p s)))) = length (disks t)
    \<and> js_get (items (storage (steps (handleBasicOnExit p s))) ! i) ''diskType'' =
        (if type t = JStr ''desktop'' \<or>
            js_get (basic (steps s)) ''optimizedFor'' = JStr ''desktop''
         then JStr ''thin''
         else if truthy (js_get (disks t ! i) ''sparse'') then JStr ''thin'' else JStr ''pre'')"
  using assms by (simp add: storage_items edit_mode_other draft_diskType)

text \<open>
  The server template with \<open>optimizedFor = server\<close>: the sparse disk becomes \<open>thin\<close>, the
  other one \<open>pre\<close>.
\<close>

theorem disk_type_rule_witness:
  "updated (storage (steps template_selected)) = 0
   \<and> length (items (storage (steps (handleBasicOnExit example_props template_selected)))) = 2
   \<and> js_get (items (storage (steps (handleBasicOnExit example_props template_selected))) ! 0)
        ''diskType'' = JStr ''thin''
   \<and> js_get (items (storage (steps (handleBasicOnExit example_props template_selected))) ! 1)
        ''diskType'' = JStr ''pre''"
proof -
  note fresh = template_selected_fresh(2)
  have n: "length (disks example_template) = 2"
    by (simp add: example_template_def)
  have server: "type example_template \<noteq> JStr ''desktop''"
    "js_get (basic (steps template_selected)) ''optimizedFor'' \<noteq> JStr ''desktop''"
    by code_simp+
  have sparse: "truthy (js_get (disks example_template ! 0) ''sparse'')"
    "\<not> truthy (js_get (disks example_template ! 1) ''sparse'')"
    by code_simp+
  show ?thesis
    using disk_type_rule [OF fresh template_selected_template, of 0]
      disk_type_rule [OF fresh template_selected_template, of 1]
      fresh n server sparse
    by simp
qed


section \<open>handleBasicOnUpdate and the two counters\<close>

text \<open>
  What the comparison of the merged \<open>steps.basic\<close> with the partial update decides: the
  counters are reset exactly when the update leaves out one of the two fields while the
  merged state has a value for it. An update that carries both fields never resets.
\<close>

lemma js_get_absent: "k \<notin> fst ` set obj \<Longrightarrow> js_get obj k = JUndefined"
  by (simp add: js_get_def map_of_eq_None_iff [THEN iffD2])

lemma merged_agrees:
  assumes "distinct (map fst partialUpdate)"
  shows "(js_get (assign_entries target partialUpdate) k = js_get partialUpdate k)
         = (k \<in> fst ` set partialUpdate \<or> js_get target k = JUndefined)"
  using js_get_assign_entries [OF assms, of target k] js_get_absent [of k partialUpdate]
  by auto

lemma handleBasicOnUpdate_reset_condition:
  assumes "distinct (map fst partialUpdate)"
  shows "updated (network (steps (handleBasicOnUpdate partialUpdate s))) =
           (if (''provisionSource'' \<notin> fst ` set partialUpdate
                  \<and> js_get (basic (steps s)) ''provisionSource'' \<noteq> JUndefined)
               \<or> (''templateId'' \<notin> fst ` set partialUpdate
                  \<and> js_get (basic (steps s)) ''templateId'' \<noteq> JUndefined)
            then 0 else updated (network (steps s)))"
    and "updated (storage (steps (handleBasicOnUpdate partialUpdate s))) =
           (if (''provisionSource'' \<notin> fst ` set partialUpdate
                  \<and> js_get (basic (steps s)) ''provisionSource'' \<noteq> JUndefined)
               \<or> (''templateId'' \<notin> fst ` set partialUpdate
                  \<and> js_get (basic (steps s)) ''templateId'' \<noteq> JUndefined)
            then 0 else updated (storage (steps s)))"
  by (auto simp add: handleBasicOnUpdate_def Let_def merged_agrees [OF assms])

text \<open>
  Claim C2. The claim, and the comment in \<open>handleBasicOnUpdate\<close>, say that the counters are
  reset when the merge changes \<open>provisionSource\<close> or \<open>templateId\<close>, and kept otherwise.
  The code does neither. After the derivation (both counters 1, source \<open>template\<close>,
  template \<open>t1\<close>), the update \<open>{provisionSource: 'iso', templateId: undefined}\<close> changes both
  fields and both counters stay 1; the update \<open>{name: 'vm1'}\<close> changes neither field and
  both counters are reset to 0.
\<close>

theorem updateBasic_reset_inverted:
  "js_get (basic (steps derived)) ''provisionSource'' = JStr ''template''
   \<and> js_get (basic (steps derived)) ''templateId'' = JStr ''t1''
   \<and> updated (network (steps derived)) = 1
   \<and> updated (storage (steps derived)) = 1
   \<and> js_get (basic (steps (handleBasicOnUpdate
          [(''provisionSource'', JStr ''iso''), (''templateId'', JUndefined)] derived)))
        ''provisionSource'' = JStr ''iso''
   \<and> js_get (basic (steps (handleBasicOnUpdate
          [(''provisionSource'', JStr ''iso''), (''templateId'', JUndefined)] derived)))
        ''templateId'' = JUndefined
   \<and> updated (network (steps (handleBasicOnUpdate
          [(''provisionSource'', JStr ''iso''), (''templateId'', JUndefined)] derived))) = 1
   \<and> updated (storage (steps (handleBasicOnUpdate
          [(''provisionSource'', JStr ''iso''), (''templateId'', JUndefined)] derived))) = 1
   \<and> js_get (basic (steps (handleBasicOnUpdate [(''name'', JStr ''vm1'')] derived)))
        ''provisionSource'' = JStr ''template''
   \<and> js_get (basic (steps (handleBasicOnUpdate [(''name'', JStr ''vm1'')] derived)))
        ''templateId'' = JStr ''t1''
   \<and> updated (network (steps (handleBasicOnUpdate [(''name'', JStr ''vm1'')] derived))) = 0
   \<and> updated (storage (steps (handleBasicOnUpdate [(''name'', JStr ''vm1'')] derived))) = 0"
  by code_simp

text \<open>The counters in the two updates, side by side.\<close>

theorem updateBasic_reset_inverted_witness:
  "updated (network (steps (handleBasicOnUpdate
      [(''provisionSource'', JStr ''iso''), (''templateId'', JUndefined)] derived)))
     = updated (network (steps derived))
   \<and> updated (network (steps (handleBasicOnUpdate [(''name'', JStr ''vm1'')] derived))) = 0
   \<and> updated (network (steps derived)) = 1"
  using updateBasic_reset_inverted by simp

section \<open>The progress view\<close>

text \<open>
  Claim C3, as the code has it. For every token other than \<open>null\<close>, the progress view
  against an empty result collection has \<open>inProgress = true\<close> (and no result yet). The
  code tests \<open>correlationId !== null\<close> first: with no token nothing is in progress.
\<close>

theorem resolve_empty_results_in_progress:
  "cid \<noteq> JNull \<Longrightarrow> actionResults p = [] \<Longrightarrow>
   inProgress (finishedStepProgress p cid) \<and> result (finishedStepProgress p cid) = JUndefined"
  by (simp add: finishedStepProgress_def has_def)

theorem resolve_empty_results_in_progress_witness:
  "JStr ''CreateVmWizard_2'' \<noteq> JNull
   \<and> actionResults (example_props \<lparr> actionResults := [] \<rparr>) = []
   \<and> inProgress (finishedStepProgress (example_props \<lparr> actionResults := [] \<rparr>)
        (JStr ''CreateVmWizard_2''))"
  using resolve_empty_results_in_progress
    [of "JStr ''CreateVmWizard_2''" "example_props \<lparr> actionResults := [] \<rparr>"]
  by simp

text \<open>The claim C3 as stated fails at the token \<open>null\<close>: nothing is in progress.\<close>

theorem resolve_null_token_counterexample:
  "actionResults (example_props \<lparr> actionResults := [] \<rparr>) = []
   \<and> \<not> inProgress (finishedStepProgress (example_props \<lparr> actionResults := [] \<rparr>) JNull)"
  by (simp add: finishedStepProgress_def)

text \<open>
  Claim C4. For every token other than \<open>null\<close> that is a key of the result collection,
  with stored result \<open>r\<close>: \<open>inProgress\<close> is false, \<open>result\<close> is \<open>success\<close> if \<open>r\<close> is truthy
  and \<open>error\<close> otherwise, and \<open>messages\<close> are the rendered records, in order, whose
  \<open>failedAction.meta.correlationId\<close> is the token; none when no record carries it.
\<close>

theorem resolve_known_token:
  assumes "cid \<noteq> JNull" and "get (actionResults p) cid = Some r"
  shows "\<not> inProgress (finishedStepProgress p cid)
    \<and> result (finishedStepProgress p cid)
        = (if truthy r then JStr ''success'' else JStr ''error'')
    \<and> messages (finishedStepProgress p cid) =
        Some (map (buildMessageFromRecord p)
          (filter (\<lambda>record. getIn record [''failedAction'', ''meta'', ''correlationId''] = cid)
             (userMessages p)))
    \<and> ((\<forall>record \<in> set (userMessages p).
           getIn record [''failedAction'', ''meta'', ''correlationId''] \<noteq> cid)
         \<longrightarrow> messages (finishedStepProgress p cid) = Some [])"
  using assms
  by (auto simp add: finishedStepProgress_def has_def get_def Let_def filter_empty_conv)

text \<open>
  The token of the creation that succeeded has no failure record; a token with a stored
  \<open>false\<close> and one failure record gives \<open>error\<close> and the rendered message.
\<close>

theorem resolve_known_token_witness:
  "\<not> inProgress (finishedStepProgress example_props (JStr ''CreateVmWizard_1''))
   \<and> result (finishedStepProgress example_props (JStr ''CreateVmWizard_1'')) = JStr ''success''
   \<and> messages (finishedStepProgress example_props (JStr ''CreateVmWizard_1'')) = Some []
   \<and> result (finishedStepProgress
        (example_props \<lparr> actionResults := [(JStr ''CreateVmWizard_2'', JBool False)] \<rparr>)
        (JStr ''CreateVmWizard_2'')) = JStr ''error''
   \<and> messages (finishedStepProgress
        (example_props \<lparr> actionResults := [(JStr ''CreateVmWizard_2'', JBool False)] \<rparr>)
        (JStr ''CreateVmWizard_2'')) = Some [JStr ''failed'']"
proof -
  have stored: "get (actionResults example_props) (JStr ''CreateVmWizard_1'') = Some (JBool True)"
    by (simp add: example_props_def get_def)
  have unreferenced:
    "\<forall>record \<in> set (userMessages example_props).
       getIn record [''failedAction'', ''meta'', ''correlationId''] \<noteq> JStr ''CreateVmWizard_1''"
    by (simp add: example_props_def js_get_def)
  have stored': "get (actionResults
      (example_props \<lparr> actionResults := [(JStr ''CreateVmWizard_2'', JBool False)] \<rparr>))
      (JStr ''CreateVmWizard_2'') = Some (JBool False)"
    by (simp add: get_def)
  have rendered: "map (buildMessageFromRecord
      (example_props \<lparr> actionResults := [(JStr ''CreateVmWizard_2'', JBool False)] \<rparr>))
      (filter (\<lambda>record. getIn record [''failedAction'', ''meta'', ''correlationId'']
                 = JStr ''CreateVmWizard_2'')
         (userMessages
            (example_props \<lparr> actionResults := [(JStr ''CreateVmWizard_2'', JBool False)] \<rparr>)))
      = [JStr ''failed'']"
    by (simp add: example_props_def js_get_def)
  show ?thesis
    using resolve_known_token [OF _ stored] resolve_known_token [OF _ stored']
      unreferenced rendered
    by simp
qed


section \<open>Leaving the basic step twice\<close>

text \<open>
  Claim C5. For every wizard state, \<open>handleBasicOnExit\<close> called twice in a row leaves the
  state of the first call: after the first call both counters are non-zero, so the second
  call derives nothing.
\<close>

theorem materialize_idempotent:
  "handleBasicOnExit p (handleBasicOnExit p s) = handleBasicOnExit p s
   \<and> updated (network (steps (handleBasicOnExit p s))) \<noteq> 0
   \<and> updated (storage (steps (handleBasicOnExit p s))) \<noteq> 0"
  by (simp add: handleBasicOnExit_def Let_def)

theorem materialize_idempotent_witness:
  "handleBasicOnExit example_props (handleBasicOnExit example_props template_selected)
     = handleBasicOnExit example_props template_selected
   \<and> updated (network (steps (handleBasicOnExit example_props template_selected))) = 1
   \<and> updated (storage (steps (handleBasicOnExit example_props template_selected))) = 1"
  using materialize_idempotent [of example_props template_selected]
    derived_counters [unfolded derived_def]
  by simp

section \<open>List updates\<close>

lemma step_list_store:
  "step_list stepName listName st = Some xs \<Longrightarrow>
   step_list stepName listName (store_list stepName ys st) = Some ys"
  by (cases stepName; cases listName) auto

lemma step_updated_store:
  "step_list stepName listName st = Some xs \<Longrightarrow>
   step_updated stepName (store_list stepName ys st)
     = Some (the (step_updated stepName st) + 1)"
  by (cases stepName; cases listName) auto

lemma create_result:
  assumes "step_list stepName listName (steps s) = Some xs"
  shows "handleListOnUpdate stepName listName
           \<lparr> remove = JUndefined, update = None, create = Some x \<rparr> s
         = Inr (s \<lparr> wizardUpdated := True,
                     steps := store_list stepName (xs @ [x]) (steps s) \<rparr>)"
  using assms by (simp add: handleListOnUpdate_def)

lemma remove_result:
  assumes "step_list stepName listName (steps s) = Some xs" and "truthy r"
  shows "handleListOnUpdate stepName listName
           \<lparr> remove = r, update = None, create = None \<rparr> s
         = Inr (s \<lparr> wizardUpdated := True,
                     steps := store_list stepName
                       (filter (\<lambda>item. js_get item ''id'' \<noteq> r) xs) (steps s) \<rparr>)"
  using assms by (simp add: handleListOnUpdate_def)

lemma derived_lists:
  "step_list Network Nics (steps derived) = Some (items (network (steps derived)))"
  "step_list Storage Disks (steps derived) = Some (items (storage (steps derived)))"
  by simp_all

text \<open>
  Claim C6, as the code has it. For every wizard state, every step with its own list and
  every item \<open>x\<close> whose id is truthy and does not occur in the list: a create of \<open>x\<close>
  followed by a remove of the id of \<open>x\<close> raises nothing, restores the list and leaves the
  step's counter 2 greater. (A falsy id makes the remove an empty update, which the
  handler returns from at once.)
\<close>

theorem create_then_remove_round_trip:
  assumes own: "step_list stepName listName (steps s) = Some xs"
    and id: "truthy (js_get x ''id'')"
    and fresh: "js_get x ''id'' \<notin> (\<lambda>item. js_get item ''id'') ` set xs"
  shows "case handleListOnUpdate stepName listName
                \<lparr> remove = JUndefined, update = None, create = Some x \<rparr> s of
           Inl e \<Rightarrow> False
         | Inr s1 \<Rightarrow>
            (case handleListOnUpdate stepName listName
                    \<lparr> remove = js_get x ''id'', update = None, create = None \<rparr> s1 of
               Inl e \<Rightarrow> False
             | Inr s2 \<Rightarrow>
                 step_list stepName listName (steps s2) = Some xs
                 \<and> step_updated stepName (steps s2)
                     = Some (the (step_updated stepName (steps s)) + 2))"
proof -
  let ?s1 = "s \<lparr> wizardUpdated := True, steps := store_list stepName (xs @ [x]) (steps s) \<rparr>"
  let ?s2 = "?s1 \<lparr> wizardUpdated := True, steps := store_list stepName xs (steps ?s1) \<rparr>"
  have l1: "step_list stepName listName (steps ?s1) = Some (xs @ [x])"
    using step_list_store [OF own] by simp
  have f: "filter (\<lambda>item. js_get item ''id'' \<noteq> js_get x ''id'') (xs @ [x]) = xs"
    using filter_no_match [OF fresh] by simp
  have r2: "handleListOnUpdate stepName listName
              \<lparr> remove = js_get x ''id'', update = None, create = None \<rparr> ?s1 = Inr ?s2"
    using remove_result [OF l1 id] f by simp
  have l2: "step_list stepName listName (steps ?s2) = Some xs"
    using step_list_store [OF l1] by simp
  have u2: "step_updated stepName (steps ?s2)
              = Some (the (step_updated stepName (steps s)) + 2)"
    using step_updated_store [OF l1, of xs] step_updated_store [OF own, of "xs @ [x]"]
    by simp
  show ?thesis
    using create_result [OF own, of x] r2 l2 u2 by simp
qed

text \<open>A new NIC on the derived list of two NICs: created, removed, the counter goes 1 to 3.\<close>

theorem create_then_remove_round_trip_witness:
  "truthy (js_get [(''id'', JStr ''NEW_1''), (''name'', JStr ''nic9'')] ''id'')
   \<and> (case handleListOnUpdate Network Nics
           \<lparr> remove = JUndefined, update = None,
             create = Some [(''id'', JStr ''NEW_1''), (''name'', JStr ''nic9'')] \<rparr> derived of
         Inl e \<Rightarrow> False
       | Inr s1 \<Rightarrow>
          (case handleListOnUpdate Network Nics
                  \<lparr> remove = js_get [(''id'', JStr ''NEW_1''), (''name'', JStr ''nic9'')] ''id'',
                    update = None, create = None \<rparr> s1 of
             Inl e \<Rightarrow> False
           | Inr s2 \<Rightarrow>
               step_list Network Nics (steps s2) = Some (items (network (steps derived)))
               \<and> step_updated Network (steps s2) = Some 3))"
proof -
  have id: "truthy (js_get [(''id'', JStr ''NEW_1''), (''name'', JStr ''nic9'')] ''id'')"
    by (simp add: js_get_def)
  have fresh: "js_get [(''id'', JStr ''NEW_1''), (''name'', JStr ''nic9'')] ''id''
                 \<notin> (\<lambda>item. js_get item ''id'') ` set (items (network (steps derived)))"
    by code_simp
  have n: "the (step_updated Network (steps derived)) + 2 = 3"
    by (simp add: derived_counters)
  show ?thesis
    using create_then_remove_round_trip [OF derived_lists(1) id fresh] id
    unfolding n by simp
qed

text \<open>
  The claim C6 as stated fails for an item whose id is the empty string: the create
  appends it, the remove of \<open>''\<close> is taken for an empty update and changes nothing, so the
  item stays in the list and the counter is 1, not 2.
\<close>

theorem create_then_remove_empty_id_counterexample:
  "step_list Network Nics (steps DEFAULT_STATE) = Some []
   \<and> handleListOnUpdate Network Nics
        \<lparr> remove = JUndefined, update = None, create = Some item_with_empty_id \<rparr> DEFAULT_STATE
       = Inr empty_id_created
   \<and> handleListOnUpdate Network Nics
        \<lparr> remove = js_get item_with_empty_id ''id'', update = None, create = None \<rparr>
        empty_id_created
       = Inr empty_id_created
   \<and> step_list Network Nics (steps empty_id_created) = Some [item_with_empty_id]
   \<and> step_updated Network (steps DEFAULT_STATE) = Some 0
   \<and> step_updated Network (steps empty_id_created) = Some 1"
  by (simp add: handleListOnUpdate_def empty_id_created_def item_with_empty_id_def
        DEFAULT_STATE_def js_get_def)

text \<open>
  Claim C7, as the code has it. For every wizard state and every update of a step's own
  list that carries an update object, a truthy remove id, or both, where neither id
  matches an item of the list: the handler raises nothing, the items of the list are
  unchanged (an item the same call creates is appended), the step's counter is one greater
  and \<open>wizardUpdated\<close> is true.
\<close>

theorem unknown_id_mutation:
  assumes own: "step_list stepName listName (steps s) = Some xs"
    and nonempty: "truthy (remove pl) \<or> update pl \<noteq> None"
    and rm: "truthy (remove pl) \<longrightarrow> remove pl \<notin> (\<lambda>item. js_get item ''id'') ` set xs"
    and up: "\<forall>u. update pl = Some u \<longrightarrow>
               js_get u ''id'' \<notin> (\<lambda>item. js_get item ''id'') ` set xs"
  shows "case handleListOnUpdate stepName listName pl s of
           Inl e \<Rightarrow> False
         | Inr s' \<Rightarrow>
             step_list stepName listName (steps s')
               = Some (xs @ (case create pl of None \<Rightarrow> [] | Some c \<Rightarrow> [c]))
             \<and> step_updated stepName (steps s')
                 = Some (the (step_updated stepName (steps s)) + 1)
             \<and> wizardUpdated s'"
proof -
  let ?ys = "xs @ (case create pl of None \<Rightarrow> [] | Some c \<Rightarrow> [c])"
  have "handleListOnUpdate stepName listName pl s
          = Inr (s \<lparr> wizardUpdated := True, steps := store_list stepName ?ys (steps s) \<rparr>)"
    using own nonempty rm up
    by (auto simp add: handleListOnUpdate_def filter_no_match update_found_no_match
          split: option.splits)
  then show ?thesis
    using step_list_store [OF own, of ?ys] step_updated_store [OF own, of ?ys] by simp
qed

text \<open>On the two derived disks: a remove of \<open>nope\<close> and an update of \<open>ghost\<close>.\<close>

theorem unknown_id_mutation_witness:
  "case handleListOnUpdate Storage Disks
          \<lparr> remove = JStr ''nope'',
            update = Some [(''id'', JStr ''ghost''), (''name'', JStr ''renamed'')],
            create = None \<rparr> derived of
     Inl e \<Rightarrow> False
   | Inr s' \<Rightarrow>
       step_list Storage Disks (steps s') = Some (items (storage (steps derived)))
       \<and> step_updated Storage (steps s') = Some 2
       \<and> wizardUpdated s'"
proof -
  let ?pl = "\<lparr> remove = JStr ''nope'',
               update = Some [(''id'', JStr ''ghost''), (''name'', JStr ''renamed'')],
               create = None \<rparr>"
  have rm: "JStr ''nope'' \<notin> (\<lambda>item. js_get item ''id'') ` set (items (storage (steps derived)))"
    by code_simp
  have up: "js_get [(''id'', JStr ''ghost''), (''name'', JStr ''renamed'')] ''id''
              \<notin> (\<lambda>item. js_get item ''id'') ` set (items (storage (steps derived)))"
    by code_simp
  have n: "the (step_updated Storage (steps derived)) + 1 = 2"
    by (simp add: derived_counters)
  have "case handleListOnUpdate Storage Disks ?pl derived of
          Inl e \<Rightarrow> False
        | Inr s' \<Rightarrow>
            step_list Storage Disks (steps s')
              = Some (items (storage (steps derived))
                       @ (case create ?pl of None \<Rightarrow> [] | Some c \<Rightarrow> [c]))
            \<and> step_updated Storage (steps s')
                = Some (the (step_updated Storage (steps derived)) + 1)
            \<and> wizardUpdated s'"
    by (rule unknown_id_mutation [OF derived_lists(2)]) (simp_all add: rm up)
  then show ?thesis unfolding n by (simp split: sum.splits)
qed

text \<open>
  The claim C7 as stated fails for a remove whose id is the empty string: it matches no
  item, and the handler returns at once: the counter stays 0 and \<open>wizardUpdated\<close> false.
\<close>

theorem falsy_remove_counterexample:
  "step_list Storage Disks (steps (getInitialState example_props)) = Some []
   \<and> handleListOnUpdate Storage Disks
        \<lparr> remove = JStr [], update = None, create = None \<rparr> (getInitialState example_props)
       = Inr (getInitialState example_props)
   \<and> step_updated Storage (steps (getInitialState example_props)) = Some 0
   \<and> \<not> wizardUpdated (getInitialState example_props)"
  by (simp add: handleListOnUpdate_def getInitialState_def DEFAULT_STATE_def Let_def)


section \<open>The correlation token\<close>

lemma getInitialState_correlationId: "correlationId (getInitialState p) = JNull"
  by (simp add: getInitialState_def DEFAULT_STATE_def Let_def)

lemma handleListOnUpdate_correlationId:
  "handleListOnUpdate stepName listName pl s = Inr s' \<Longrightarrow> correlationId s' = correlationId s"
  by (auto simp add: handleListOnUpdate_def Let_def split: if_splits option.splits)

lemma submitted_reachable: "reachable example_props submitted"
  unfolding submitted_def derived_def template_selected_def
  using reachable_step [of example_props _ "HandleCreateVm (JStr ''CreateVmWizard_1'')"]
    reachable_step [of example_props _ HandleBasicOnExit]
    reachable_step [of example_props _ "HandleBasicOnUpdate
      [ (''provisionSource'', JStr ''template''), (''templateId'', JStr ''t1''),
        (''optimizedFor'', JStr ''server'') ]"]
    reachable_init [of example_props]
  by simp

text \<open>
  Claim C8, as the code has it. In every wizard state, \<open>handleBasicOnUpdate\<close>,
  \<open>handleBasicOnExit\<close>, \<open>handleListOnUpdate\<close>, \<open>hideCloseWizardDialog\<close> and the validity
  updates leave \<open>correlationId\<close> as it is; \<open>showCloseWizardDialog\<close> leaves it as it is or
  reinitialises the state; \<open>hideAndResetState\<close> and \<open>hideAndNavigate\<close> reinitialise the
  state, which sets \<open>correlationId\<close> to \<open>null\<close> and advances \<open>wizardKey\<close>. Only
  \<open>handleCreateVm\<close> stamps a token, and it does so whether or not one is already set.
\<close>

theorem correlationId_frame:
  "(case ops of
      HandleCreateVm token \<Rightarrow> correlationId (run_op p ops s) = token
    | HideAndResetState \<Rightarrow> run_op p ops s = hideAndResetState p s
    | HideAndNavigate \<Rightarrow> run_op p ops s = hideAndResetState p s
    | ShowCloseWizardDialog \<Rightarrow>
        correlationId (run_op p ops s) = correlationId s
        \<or> run_op p ops s = hideAndResetState p s
    | _ \<Rightarrow> correlationId (run_op p ops s) = correlationId s)
   \<and> correlationId (hideAndResetState p s) = JNull
   \<and> wizardKey (hideAndResetState p s) = wizardKey s + 1"
proof (intro conjI)
  show "case ops of
      HandleCreateVm token \<Rightarrow> correlationId (run_op p ops s) = token
    | HideAndResetState \<Rightarrow> run_op p ops s = hideAndResetState p s
    | HideAndNavigate \<Rightarrow> run_op p ops s = hideAndResetState p s
    | ShowCloseWizardDialog \<Rightarrow>
        correlationId (run_op p ops s) = correlationId s
        \<or> run_op p ops s = hideAndResetState p s
    | _ \<Rightarrow> correlationId (run_op p ops s) = correlationId s"
  proof (cases ops)
    case (HandleListOnUpdate stepName listName pl)
    then show ?thesis
      by (auto simp add: handleListOnUpdate_correlationId split: sum.splits)
  next
    case (SetValid stepName v)
    then show ?thesis by (cases stepName) simp_all
  qed (simp_all add: handleBasicOnUpdate_def handleBasicOnExit_def handleCreateVm_def
        hideCloseWizardDialog_def hideAndNavigate_def showCloseWizardDialog_handler_def Let_def)
next
  show "correlationId (hideAndResetState p s) = JNull"
    by (simp add: hideAndResetState_def getInitialState_correlationId)
next
  show "wizardKey (hideAndResetState p s) = wizardKey s + 1"
    by (simp add: hideAndResetState_def)
qed

text \<open>
  After the submission: a change of the name and a list update keep the token, the reset
  clears it.
\<close>

theorem correlationId_frame_witness:
  "correlationId submitted = JStr ''CreateVmWizard_1''
   \<and> correlationId (run_op example_props (HandleBasicOnUpdate [(''name'', JStr ''vm1'')])
        submitted) = JStr ''CreateVmWizard_1''
   \<and> correlationId (run_op example_props
        (HandleListOnUpdate Network Nics
          \<lparr> remove = JStr ''nic1'', update = None, create = None \<rparr>) submitted)
       = JStr ''CreateVmWizard_1''
   \<and> correlationId (run_op example_props HideAndResetState submitted) = JNull"
proof -
  have token: "correlationId submitted = JStr ''CreateVmWizard_1''"
    by (simp add: submitted_def handleCreateVm_def)
  show ?thesis
    using token
      correlationId_frame
        [where ops = "HandleBasicOnUpdate [(''name'', JStr ''vm1'')]"
           and p = example_props and s = submitted]
      correlationId_frame
        [where ops = "HandleListOnUpdate Network Nics
                        \<lparr> remove = JStr ''nic1'', update = None, create = None \<rparr>"
           and p = example_props and s = submitted]
      correlationId_frame
        [where ops = HideAndResetState and p = example_props and s = submitted]
    by simp
qed

text \<open>
  The claim C8 as stated fails for \<open>handleCreateVm\<close> itself. The state after one
  submission is reachable and holds the token \<open>CreateVmWizard_1\<close>; leaving the review step
  again calls \<open>handleCreateVm\<close>, which stamps the next token without any reset.
\<close>

theorem resubmit_counterexample:
  "reachable example_props submitted
   \<and> correlationId submitted = JStr ''CreateVmWizard_1''
   \<and> correlationId submitted \<noteq> JNull
   \<and> correlationId (run_op example_props (HandleCreateVm (JStr ''CreateVmWizard_2'')) submitted)
       = JStr ''CreateVmWizard_2''
   \<and> correlationId (run_op example_props (HandleCreateVm (JStr ''CreateVmWizard_2'')) submitted)
       \<noteq> correlationId submitted"
  using submitted_reachable by (simp add: submitted_def handleCreateVm_def)

section \<open>Disks in edit mode\<close>

lemma edit_mode_draft:
  fixes sds t s disk
  defines "d \<equiv> edit_mode (disk_draft sds t s disk)"
  shows "(js_get d ''canUserUseStorageDomain'' = JBool False \<longrightarrow>
            (\<exists>shadow. js_get d ''underConstruction'' = JObj shadow
               \<and> js_get shadow ''storageDomainId'' = JStr ''_''
               \<and> (\<forall>k. k \<noteq> ''storageDomainId'' \<and> k \<noteq> ''underConstruction''
                     \<longrightarrow> js_get shadow k = js_get d k)))
       \<and> (js_get d ''canUserUseStorageDomain'' = JBool True \<longrightarrow>
            map_of d ''underConstruction'' = None)"
  unfolding d_def
  by (simp add: edit_mode_other draft_canUse)
     (auto simp add: edit_mode_def draft_canUse js_get_set_prop draft_no_shadow)

lemma edit_mode_truthy:
  "truthy (js_get (edit_mode (disk_draft sds t s disk)) ''underConstruction'') =
     (map_of (edit_mode (disk_draft sds t s disk)) ''underConstruction'' \<noteq> None)"
  by (simp add: edit_mode_def draft_canUse js_get_set_prop map_of_set_prop draft_no_shadow)
     (simp add: js_get_def draft_no_shadow)

lemma edit_mode_bool:
  "\<exists>b. js_get (edit_mode (disk_draft sds t s disk)) ''canUserUseStorageDomain'' = JBool b"
  by (simp add: edit_mode_other draft_canUse)

lemma derived_disk:
  assumes "updated (storage (steps s)) = 0"
    and "d \<in> set (items (storage (steps (handleBasicOnExit p s))))"
  shows "\<exists>sds t disk. d = edit_mode (disk_draft sds t s disk)"
  using assms by (auto simp add: storage_items split: option.splits)

text \<open>
  Claim C9. After every derivation of the disks on leaving the basic step (the storage
  counter is 0), each disk of the list has a boolean \<open>canUserUseStorageDomain\<close>; where it is
  false the disk carries under \<open>underConstruction\<close> a copy of itself whose
  \<open>storageDomainId\<close> is \<open>_\<close>; where it is true the disk has no \<open>underConstruction\<close>; and
  \<open>stepNavigation.storage.valid\<close> is true iff no disk of the list has an
  \<open>underConstruction\<close>.
\<close>

theorem storage_derivation_shadows:
  assumes "updated (storage (steps s)) = 0"
  shows "(\<forall>d \<in> set (items (storage (steps (handleBasicOnExit p s)))).
           (\<exists>b. js_get d ''canUserUseStorageDomain'' = JBool b)
         \<and> (js_get d ''canUserUseStorageDomain'' = JBool False \<longrightarrow>
              (\<exists>shadow. js_get d ''underConstruction'' = JObj shadow
                 \<and> js_get shadow ''storageDomainId'' = JStr ''_''
                 \<and> (\<forall>k. k \<noteq> ''storageDomainId'' \<and> k \<noteq> ''underConstruction''
                       \<longrightarrow> js_get shadow k = js_get d k)))
         \<and> (js_get d ''canUserUseStorageDomain'' = JBool True \<longrightarrow>
              map_of d ''underConstruction'' = None))
    \<and> valid (nav_storage (stepNavigation (handleBasicOnExit p s))) =
        (\<forall>d \<in> set (items (storage (steps (handleBasicOnExit p s)))).
           map_of d ''underConstruction'' = None)"
proof (intro conjI ballI)
  fix d
  assume "d \<in> set (items (storage (steps (handleBasicOnExit p s))))"
  then obtain sds t disk where d: "d = edit_mode (disk_draft sds t s disk)"
    using derived_disk [OF assms] by blast
  show "\<exists>b. js_get d ''canUserUseStorageDomain'' = JBool b"
    unfolding d by (rule edit_mode_bool)
  show "js_get d ''canUserUseStorageDomain'' = JBool False \<longrightarrow>
          (\<exists>shadow. js_get d ''underConstruction'' = JObj shadow
             \<and> js_get shadow ''storageDomainId'' = JStr ''_''
             \<and> (\<forall>k. k \<noteq> ''storageDomainId'' \<and> k \<noteq> ''underConstruction''
                   \<longrightarrow> js_get shadow k = js_get d k))"
    unfolding d using edit_mode_draft [of sds t s disk] by blast
  show "js_get d ''canUserUseStorageDomain'' = JBool True \<longrightarrow>
          map_of d ''underConstruction'' = None"
    unfolding d using edit_mode_draft [of sds t s disk] by blast
next
  have "\<And>d. d \<in> set (items (storage (steps (handleBasicOnExit p s)))) \<Longrightarrow>
          truthy (js_get d ''underConstruction'') = (map_of d ''underConstruction'' \<noteq> None)"
    using derived_disk [OF assms] edit_mode_truthy by blast
  then show "valid (nav_storage (stepNavigation (handleBasicOnExit p s))) =
        (\<forall>d \<in> set (items (storage (steps (handleBasicOnExit p s)))).
           map_of d ''underConstruction'' = None)"
    by (auto simp add: storage_valid [OF assms] find_None_iff)
qed

text \<open>
  The first derived disk sits on the storage domain \<open>SD1\<close>, which the user cannot use: it
  has the shadow copy and the storage step is not valid. The second has none.
\<close>

theorem storage_derivation_shadows_witness:
  "updated (storage (steps template_selected)) = 0
   \<and> js_get (items (storage (steps (handleBasicOnExit example_props template_selected))) ! 0)
        ''canUserUseStorageDomain'' = JBool False
   \<and> getIn (JObj (items (storage (steps (handleBasicOnExit example_props template_selected))) ! 0))
        [''underConstruction'', ''storageDomainId''] = JStr ''_''
   \<and> js_get (items (storage (steps (handleBasicOnExit example_props template_selected))) ! 1)
        ''canUserUseStorageDomain'' = JBool True
   \<and> map_of (items (storage (steps (handleBasicOnExit example_props template_selected))) ! 1)
        ''underConstruction'' = None
   \<and> \<not> valid (nav_storage (stepNavigation (handleBasicOnExit example_props template_selected)))"
proof -
  let ?D = "items (storage (steps (handleBasicOnExit example_props template_selected)))"
  note fresh = template_selected_fresh(2)
  have mem: "?D ! 0 \<in> set ?D" "?D ! 1 \<in> set ?D"
    by (simp_all add: storage_items [OF fresh] template_selected_template example_template_def)
  have first: "js_get (?D ! 0) ''canUserUseStorageDomain'' = JBool False"
    by code_simp
  have second: "js_get (?D ! 1) ''canUserUseStorageDomain'' = JBool True"
    by code_simp
  note all = storage_derivation_shadows [OF fresh, of example_props, THEN conjunct1]
  note flag = storage_derivation_shadows [OF fresh, of example_props, THEN conjunct2]
  from bspec [OF all mem(1)] first
  obtain shadow where shadow: "js_get (?D ! 0) ''underConstruction'' = JObj shadow"
      "js_get shadow ''storageDomainId'' = JStr ''_''"
    by blast
  from bspec [OF all mem(2)] second
  have none: "map_of (?D ! 1) ''underConstruction'' = None"
    by blast
  from shadow(1) have key: "map_of (?D ! 0) ''underConstruction'' \<noteq> None"
    by (auto simp add: js_get_def split: option.splits)
  have "\<not> (\<forall>d \<in> set ?D. map_of d ''underConstruction'' = None)"
  proof
    assume "\<forall>d \<in> set ?D. map_of d ''underConstruction'' = None"
    from bspec [OF this mem(1)] key show False by contradiction
  qed
  with flag
  have invalid: "\<not> valid (nav_storage (stepNavigation
      (handleBasicOnExit example_props template_selected)))"
    by simp
  have path: "getIn (JObj (?D ! 0)) [''underConstruction'', ''storageDomainId''] = JStr ''_''"
    using shadow by simp
  show ?thesis
    using fresh first path second none invalid by simp
qed

section \<open>What leaving the basic step leaves alone\<close>

text \<open>
  Claim C10. For every wizard state, \<open>handleBasicOnExit\<close> never changes \<open>steps.basic\<close>; a
  network step whose counter is not 0 keeps its list and counter, and so does a storage
  step whose counter is not 0 (the navigation flags stay as well then); and nothing but
  the two steps and the storage validity flag is ever changed.
\<close>

theorem materialize_frame:
  "basic (steps (handleBasicOnExit p s)) = basic (steps s)
   \<and> (updated (network (steps s)) \<noteq> 0 \<longrightarrow>
        network (steps (handleBasicOnExit p s)) = network (steps s))
   \<and> (updated (storage (steps s)) \<noteq> 0 \<longrightarrow>
        storage (steps (handleBasicOnExit p s)) = storage (steps s)
        \<and> stepNavigation (handleBasicOnExit p s) = stepNavigation s)
   \<and> handleBasicOnExit p s =
       s \<lparr> steps := (steps s)
             \<lparr> network := network (steps (handleBasicOnExit p s)),
               storage := storage (steps (handleBasicOnExit p s)) \<rparr>,
           stepNavigation := (stepNavigation s)
             \<lparr> nav_storage := (nav_storage (stepNavigation s))
                 \<lparr> valid := valid (nav_storage (stepNavigation (handleBasicOnExit p s))) \<rparr> \<rparr> \<rparr>"
  by (simp add: handleBasicOnExit_def Let_def)

text \<open>
  With a NIC added before leaving the basic step the NIC list is kept and the disks are
  derived; with a disk added, the disk list is kept.
\<close>

theorem materialize_frame_witness:
  "updated (network (steps nic_added)) = 1
   \<and> updated (storage (steps nic_added)) = 0
   \<and> basic (steps (handleBasicOnExit example_props nic_added)) = basic (steps nic_added)
   \<and> network (steps (handleBasicOnExit example_props nic_added)) = network (steps nic_added)
   \<and> updated (storage (steps (handleBasicOnExit example_props nic_added))) = 1
   \<and> updated (storage (steps disk_added)) = 1
   \<and> storage (steps (handleBasicOnExit example_props disk_added)) = storage (steps disk_added)
   \<and> stepNavigation (handleBasicOnExit example_props disk_added) = stepNavigation disk_added"
proof -
  have counters: "updated (network (steps nic_added)) = 1"
    "updated (storage (steps nic_added)) = 0"
    "updated (storage (steps (handleBasicOnExit example_props nic_added))) = 1"
    "updated (storage (steps disk_added)) = 1"
    by code_simp+
  show ?thesis
    using materialize_frame [of example_props nic_added]
      materialize_frame [of example_props disk_added] counters
    by simp
qed


end
